theory Spec2Isabelle
  imports Main
begin

section \<open>Common values\<close>

text \<open>
  A non-nil Go \<^verbatim>\<open>error\<close> is identified with its message (the result of
  \<^verbatim>\<open>err.Error()\<close>); a nilable error is an \<open>error option\<close>, \<open>None\<close> for nil.
  A value of type \<^verbatim>\<open>any\<close> is a string, an integer or a slice of such values.
\<close>

datatype error = Err string

fun err_Error :: "error \<Rightarrow> string" where
  "err_Error (Err m) = m"

datatype any = AStr string | AInt int | ASlice "any list"

text \<open>\<^verbatim>\<open>time.Duration\<close> counts nanoseconds.\<close>

definition Second :: int where
  "Second = 1000000000"

section \<open>Package logger\<close>

text \<open>
  The package keeps one process-wide \<^verbatim>\<open>slog\<close> logger. The model records the
  sequence of records handed to it: \<^verbatim>\<open>logger.Info(msg, args...)\<close> appends a record
  of level Info, and so on; the alternating key/value arguments are kept as pairs. The
  handler installed by \<^verbatim>\<open>Init\<close> writes a record when its level is at least the
  configured one (\<open>written\<close>).
\<close>

datatype Level = LevelDebug | LevelInfo | LevelWarn | LevelError

record log_record =
  lr_level :: Level
  lr_msg :: string
  lr_args :: "(string \<times> any) list"

type_synonym logger = "log_record list"

definition logger_Info :: "string \<Rightarrow> (string \<times> any) list \<Rightarrow> logger \<Rightarrow> logger" where
  "logger_Info m kvs lg = lg @ [\<lparr>lr_level = LevelInfo, lr_msg = m, lr_args = kvs\<rparr>]"

definition logger_Warn :: "string \<Rightarrow> (string \<times> any) list \<Rightarrow> logger \<Rightarrow> logger" where
  "logger_Warn m kvs lg = lg @ [\<lparr>lr_level = LevelWarn, lr_msg = m, lr_args = kvs\<rparr>]"

definition logger_Error :: "string \<Rightarrow> (string \<times> any) list \<Rightarrow> logger \<Rightarrow> logger" where
  "logger_Error m kvs lg = lg @ [\<lparr>lr_level = LevelError, lr_msg = m, lr_args = kvs\<rparr>]"

fun Level_num :: "Level \<Rightarrow> int" where
  "Level_num LevelDebug = -4"
| "Level_num LevelInfo = 0"
| "Level_num LevelWarn = 4"
| "Level_num LevelError = 8"

text \<open>The level chosen by \<^verbatim>\<open>Init\<close>; \<^verbatim>\<open>strings.ToLower\<close> is a parameter.\<close>

definition Init_logLevel :: "(string \<Rightarrow> string) \<Rightarrow> string \<Rightarrow> Level" where
  "Init_logLevel ToLower lvl =
     (let l = ToLower lvl in
      if l = ''debug'' then LevelDebug
      else if l = ''info'' then LevelInfo
      else if l = ''warn'' then LevelWarn
      else if l = ''error'' then LevelError
      else LevelInfo)"

definition written :: "Level \<Rightarrow> logger \<Rightarrow> logger" where
  "written minLevel lg = filter (\<lambda>r. Level_num minLevel \<le> Level_num (lr_level r)) lg"

section \<open>Package middleware: the access log\<close>

text \<open>
  The values the framework's request logger passes to \<^verbatim>\<open>LogValuesFunc\<close> once the
  wrapped chain has returned. \<^verbatim>\<open>Duration.String\<close> is a parameter.
\<close>

record RequestLoggerValues =
  Method :: string
  URI :: string
  Status :: int
  Latency :: int
  RequestID :: string
  RemoteIP :: string
  UserAgent :: string
  Error :: "error option"

definition LogValuesFunc ::
  "(int \<Rightarrow> string) \<Rightarrow> RequestLoggerValues \<Rightarrow> logger \<Rightarrow> error option \<times> logger" where
  "LogValuesFunc Duration_String v lg =
     (let args0 = [(''method'', AStr (Method v)),
                   (''path'', AStr (URI v)),
                   (''status'', AInt (Status v)),
                   (''latency'', AStr (Duration_String (Latency v))),
                   (''request_id'', AStr (RequestID v)),
                   (''ip'', AStr (RemoteIP v))];
          args1 = (case Error v of
                     Some e \<Rightarrow> args0 @ [(''error'', AStr (err_Error e))]
                   | None \<Rightarrow> args0)
      in if Status v \<ge> 500 then (None, logger_Error ''request failed'' args1 lg)
         else if Status v \<ge> 400 then (None, logger_Warn ''request error'' args1 lg)
         else (None, logger_Info ''request completed'' args1 lg))"

section \<open>The request context\<close>

text \<open>
  What one request sees through the framework's context: the request (its form fields,
  its headers and the value of the cookie named \<open>SessionName\<close>, when it carries one),
  the response under construction, the context's key/value store, the session objects
  that pointers refer to, and the log. Session objects live in \<open>heap\<close> and are referred to
  by address, as the code shares one \<^verbatim>\<open>*sessions.Session\<close> between the session stage
  and the handlers; \<open>nalloc\<close> is the next unused address.
\<close>

record Request =
  form :: "(string \<times> string) list"
  header :: "(string \<times> string) list"
  cookie :: "string option"

datatype body = NoBody | Text string | JSON "string \<rightharpoonup> string"

record Response =
  code :: int
  content :: body
  location :: "string option"
  set_cookie :: "(string \<times> string) list"

record Session =
  Values :: "string \<rightharpoonup> any"
  IsNew :: bool

datatype ctx_value = SessionPtr nat | Other any

record Context =
  request :: Request
  response :: Response
  store :: "string \<rightharpoonup> ctx_value"
  heap :: "nat \<Rightarrow> Session"
  nalloc :: nat
  logs :: logger

text \<open>A call either returns a value or panics.\<close>

datatype 'a result = Ok 'a | Panic string

text \<open>
  \<^verbatim>\<open>c.FormValue\<close> and \<^verbatim>\<open>Header.Get\<close> give the first value of the name, or the empty
  string; \<^verbatim>\<open>c.Set\<close> binds a key of the store; \<^verbatim>\<open>c.JSON\<close>, \<^verbatim>\<open>c.HTML\<close> and
  \<^verbatim>\<open>c.Redirect\<close> set the status code and the body or the \<^verbatim>\<open>Location\<close> header, and a
  write to the response writer sends status 200 with the text.
\<close>

definition FormValue :: "Context \<Rightarrow> string \<Rightarrow> string" where
  "FormValue c name = (case map_of (form (request c)) name of Some v \<Rightarrow> v | None \<Rightarrow> [])"

definition Header_Get :: "Context \<Rightarrow> string \<Rightarrow> string" where
  "Header_Get c name = (case map_of (header (request c)) name of Some v \<Rightarrow> v | None \<Rightarrow> [])"

definition c_Set :: "string \<Rightarrow> ctx_value \<Rightarrow> Context \<Rightarrow> Context" where
  "c_Set k v c = c\<lparr>store := (store c)(k \<mapsto> v)\<rparr>"

definition c_JSON :: "int \<Rightarrow> (string \<rightharpoonup> string) \<Rightarrow> Context \<Rightarrow> Context" where
  "c_JSON status m c = c\<lparr>response := (response c)\<lparr>code := status, content := JSON m\<rparr>\<rparr>"

definition c_HTML :: "int \<Rightarrow> string \<Rightarrow> Context \<Rightarrow> Context" where
  "c_HTML status html c = c\<lparr>response := (response c)\<lparr>code := status, content := Text html\<rparr>\<rparr>"

definition c_Redirect :: "int \<Rightarrow> string \<Rightarrow> Context \<Rightarrow> Context" where
  "c_Redirect status url c =
     c\<lparr>response := (response c)\<lparr>code := status, location := Some url\<rparr>\<rparr>"

definition Writer_Write :: "string \<Rightarrow> Context \<Rightarrow> Context" where
  "Writer_Write html c = c\<lparr>response := (response c)\<lparr>code := 200, content := Text html\<rparr>\<rparr>"

definition StatusOK :: int where "StatusOK = 200"
definition StatusSeeOther :: int where "StatusSeeOther = 303"
definition StatusServiceUnavailable :: int where "StatusServiceUnavailable = 503"

section \<open>The session store\<close>

text \<open>
  Modelled from the spec: the cookie session store and its sessions (the session
  library's \<^verbatim>\<open>CookieStore.Get\<close>, \<^verbatim>\<open>CookieStore.New\<close>, \<^verbatim>\<open>Session.Save\<close>,
  \<^verbatim>\<open>Session.AddFlash\<close> and \<^verbatim>\<open>Session.Flashes\<close>) are not among the sources. A session
  is a key/value bundle, encoded and signed into a client-held cookie; it is created
  empty when the request has no cookie; a cookie that fails to decode gives an error
  together with an empty session. A flash is stored in the session under a
  category-specific bucket, and fetching a bucket also removes it from the session.
  The store's codec (keyed by the secret) is the pair \<open>Encode\<close>, \<open>Decode\<close>. A bucket is a
  slice; finding a value of another type under a bucket's key is a failed type
  assertion, a panic.
\<close>

record CookieStore =
  Encode :: "(string \<rightharpoonup> any) \<Rightarrow> error + string"
  Decode :: "string \<Rightarrow> error + (string \<rightharpoonup> any)"

definition SessionName :: string where
  "SessionName = ''session''"

text \<open>
  Modelled from the spec: \<^verbatim>\<open>CookieStore.New\<close> allocates a session, empty and new
  unless the request's cookie decodes; a decode error is returned with the empty session.
\<close>

definition CookieStore_New :: "CookieStore \<Rightarrow> Context \<Rightarrow> (nat \<times> error option) \<times> Context" where
  "CookieStore_New st c =
     (let a = nalloc c;
          (s, err) =
            (case cookie (request c) of
               None \<Rightarrow> (\<lparr>Values = Map.empty, IsNew = True\<rparr>, None)
             | Some v \<Rightarrow>
                 (case Decode st v of
                    Inl e \<Rightarrow> (\<lparr>Values = Map.empty, IsNew = True\<rparr>, Some e)
                  | Inr vals \<Rightarrow> (\<lparr>Values = vals, IsNew = False\<rparr>, None)))
      in ((a, err), c\<lparr>heap := (heap c)(a := s), nalloc := Suc a\<rparr>))"

text \<open>
  Modelled from the spec: \<^verbatim>\<open>CookieStore.Get\<close>; the first \<^verbatim>\<open>Get\<close> of a request, the
  only one the repository makes, creates the session.
\<close>

definition CookieStore_Get :: "CookieStore \<Rightarrow> Context \<Rightarrow> (nat \<times> error option) \<times> Context" where
  "CookieStore_Get st c = CookieStore_New st c"

text \<open>
  Modelled from the spec: \<^verbatim>\<open>Session.Save\<close> encodes the session's values and sets the
  cookie on the response, or returns the encoder's error and sets nothing.
\<close>

definition Session_Save :: "CookieStore \<Rightarrow> nat \<Rightarrow> Context \<Rightarrow> error option \<times> Context" where
  "Session_Save st a c =
     (case Encode st (Values (heap c a)) of
        Inl e \<Rightarrow> (Some e, c)
      | Inr v \<Rightarrow>
          (None, c\<lparr>response := (response c)
                      \<lparr>set_cookie := set_cookie (response c) @ [(SessionName, v)]\<rparr>\<rparr>))"

text \<open>
  Modelled from the spec: \<^verbatim>\<open>Session.AddFlash\<close> appends the value to the bucket of the
  key, creating the bucket when it is absent.
\<close>

definition Session_AddFlash :: "any \<Rightarrow> string \<Rightarrow> Session \<Rightarrow> unit result \<times> Session" where
  "Session_AddFlash v key s =
     (case Values s key of
        None \<Rightarrow> (Ok (), s\<lparr>Values := (Values s)(key \<mapsto> ASlice [v])\<rparr>)
      | Some (ASlice flashes) \<Rightarrow> (Ok (), s\<lparr>Values := (Values s)(key \<mapsto> ASlice (flashes @ [v]))\<rparr>)
      | Some _ \<Rightarrow> (Panic ''interface conversion'', s))"

text \<open>
  Modelled from the spec: \<^verbatim>\<open>Session.Flashes\<close> returns the bucket of the key and
  removes it from the session.
\<close>

definition Session_Flashes :: "string \<Rightarrow> Session \<Rightarrow> any list result \<times> Session" where
  "Session_Flashes key s =
     (case Values s key of
        None \<Rightarrow> (Ok [], s)
      | Some (ASlice flashes) \<Rightarrow> (Ok flashes, s\<lparr>Values := (Values s)(key := None)\<rparr>)
      | Some _ \<Rightarrow> (Panic ''interface conversion'', s\<lparr>Values := (Values s)(key := None)\<rparr>))"

section \<open>Package middleware: sessions and flash messages\<close>

text \<open>
  The session stage. \<open>sessionMiddleware_before\<close> is the code up to the call of the next
  handler (it yields the session pointer held in the stage's local variable),
  \<open>sessionMiddleware_after\<close> the code that follows the call when it returns. The stage has
  no deferred function: a panic of the next handler leaves it at once.
\<close>

definition sessionMiddleware_before :: "CookieStore \<Rightarrow> Context \<Rightarrow> nat \<times> Context" where
  "sessionMiddleware_before st c =
     (case CookieStore_Get st c of
        ((session, None), c1) \<Rightarrow> (session, c_Set ''session'' (SessionPtr session) c1)
      | ((session, Some err), c1) \<Rightarrow>
          (let c2 = c1\<lparr>logs := logger_Warn ''session decode error, creating new session''
                                  [(''error'', AStr (err_Error err))] (logs c1)\<rparr>;
               ((session', _), c3) = CookieStore_New st c2
           in (session', c_Set ''session'' (SessionPtr session') c3)))"

definition sessionMiddleware_after ::
  "CookieStore \<Rightarrow> nat \<Rightarrow> error option \<Rightarrow> Context \<Rightarrow> error option result \<times> Context" where
  "sessionMiddleware_after st session err c =
     (case Session_Save st session c of
        (Some saveErr, c1) \<Rightarrow>
          (Ok err, c1\<lparr>logs := logger_Error ''failed to save session''
                                [(''error'', AStr (err_Error saveErr))] (logs c1)\<rparr>)
      | (None, c1) \<Rightarrow> (Ok err, c1))"

definition sessionMiddleware ::
  "CookieStore \<Rightarrow> (Context \<Rightarrow> error option result \<times> Context) \<Rightarrow> Context
     \<Rightarrow> error option result \<times> Context" where
  "sessionMiddleware st next c =
     (let (session, c1) = sessionMiddleware_before st c in
      case next c1 of
        (Panic p, c2) \<Rightarrow> (Panic p, c2)
      | (Ok err, c2) \<Rightarrow> sessionMiddleware_after st session err c2)"

definition GetSession :: "Context \<Rightarrow> nat option" where
  "GetSession c = (case store c ''session'' of Some (SessionPtr a) \<Rightarrow> Some a | _ \<Rightarrow> None)"

definition FlashSuccess :: string where "FlashSuccess = ''success''"
definition FlashError :: string where "FlashError = ''error''"
definition FlashWarning :: string where "FlashWarning = ''warning''"
definition FlashInfo :: string where "FlashInfo = ''info''"

definition AddFlash :: "Context \<Rightarrow> string \<Rightarrow> string \<Rightarrow> unit result \<times> Context" where
  "AddFlash c flashType message =
     (case GetSession c of
        None \<Rightarrow> (Ok (), c)
      | Some a \<Rightarrow>
          (case Session_AddFlash (AStr message) flashType (heap c a) of
             (r, s) \<Rightarrow> (r, c\<lparr>heap := (heap c)(a := s)\<rparr>)))"

record FlashMessage =
  Type :: string
  Message :: string

text \<open>The inner loop of \<^verbatim>\<open>GetFlashes\<close>: the flashes of one bucket that are strings.\<close>

fun append_flashes :: "string \<Rightarrow> any list \<Rightarrow> FlashMessage list \<Rightarrow> FlashMessage list" where
  "append_flashes flashType [] messages = messages"
| "append_flashes flashType (AStr msg # flashes) messages =
     append_flashes flashType flashes (messages @ [\<lparr>Type = flashType, Message = msg\<rparr>])"
| "append_flashes flashType (_ # flashes) messages = append_flashes flashType flashes messages"

text \<open>The outer loop, over the categories in the order the code lists them.\<close>

fun GetFlashes_loop ::
  "string list \<Rightarrow> FlashMessage list \<Rightarrow> Session \<Rightarrow> FlashMessage list result \<times> Session" where
  "GetFlashes_loop [] messages s = (Ok messages, s)"
| "GetFlashes_loop (flashType # rest) messages s =
     (case Session_Flashes flashType s of
        (Panic p, s1) \<Rightarrow> (Panic p, s1)
      | (Ok flashes, s1) \<Rightarrow>
          GetFlashes_loop rest (append_flashes flashType flashes messages) s1)"

definition GetFlashes :: "Context \<Rightarrow> FlashMessage list result \<times> Context" where
  "GetFlashes c =
     (case GetSession c of
        None \<Rightarrow> (Ok [], c)
      | Some a \<Rightarrow>
          (case GetFlashes_loop [FlashSuccess, FlashError, FlashWarning, FlashInfo] [] (heap c a) of
             (r, s) \<Rightarrow> (r, c\<lparr>heap := (heap c)(a := s)\<rparr>)))"

section \<open>Package database and package handlers\<close>

text \<open>
  \<^verbatim>\<open>HealthCheck\<close> returns what the pool's \<^verbatim>\<open>PingContext\<close> returns; the probe's
  result is the parameter.
\<close>

definition HealthCheck :: "error option \<Rightarrow> error option" where
  "HealthCheck PingContext = PingContext"

text \<open>\<open>now\<close> is the formatted current time, \<^verbatim>\<open>time.Now().UTC().Format(time.RFC3339)\<close>.\<close>

definition Health :: "error option \<Rightarrow> string \<Rightarrow> Context \<Rightarrow> error option result \<times> Context" where
  "Health PingContext now c =
     (let dbStatus = ''connected'' in
      case HealthCheck PingContext of
        Some err \<Rightarrow>
          (Ok None, c_JSON StatusServiceUnavailable
                      [''status'' \<mapsto> ''unhealthy'',
                       ''database'' \<mapsto> ''disconnected'',
                       ''error'' \<mapsto> err_Error err,
                       ''timestamp'' \<mapsto> now] c)
      | None \<Rightarrow>
          (Ok None, c_JSON StatusOK
                      [''status'' \<mapsto> ''healthy'',
                       ''database'' \<mapsto> dbStatus,
                       ''timestamp'' \<mapsto> now] c))"

text \<open>The four bytes of the waving-hand sign that ends the fragment's greeting.\<close>

definition wave :: string where
  "wave = [CHR 0xF0, CHR 0x9F, CHR 0x91, CHR 0x8B]"

definition Greet :: "Context \<Rightarrow> error option result \<times> Context" where
  "Greet c =
     (let name0 = FormValue c ''name'';
          name = (if name0 = [] then ''World'' else name0)
      in if Header_Get c ''HX-Request'' = ''true''
         then (Ok None, c_HTML StatusOK (''Hello, '' @ name @ ''! '' @ wave) c)
         else (case AddFlash c FlashSuccess (''Hello, '' @ name @ ''!'') of
                 (Panic p, c1) \<Rightarrow> (Panic p, c1)
               | (Ok _, c1) \<Rightarrow> (Ok None, c_Redirect StatusSeeOther ''/'' c1)))"

text \<open>
  The home page; the page template (\<^verbatim>\<open>pages.Home\<close> and its \<^verbatim>\<open>Render\<close>) is the
  parameter: it gives the page's text or an error.
\<close>

definition Home ::
  "(FlashMessage list \<Rightarrow> error + string) \<Rightarrow> Context \<Rightarrow> error option result \<times> Context" where
  "Home pages_Home c =
     (case GetFlashes c of
        (Panic p, c1) \<Rightarrow> (Panic p, c1)
      | (Ok flashes, c1) \<Rightarrow>
          (case pages_Home flashes of
             Inl e \<Rightarrow> (Ok (Some e), c1)
           | Inr html \<Rightarrow> (Ok None, Writer_Write html c1)))"

text \<open>
  For the statements about flashes: the flashes held under a key (none when the key is
  absent), the four categories in the order \<^verbatim>\<open>GetFlashes\<close> visits them, and the
  position of a category in that order.
\<close>

definition bucket :: "Session \<Rightarrow> string \<Rightarrow> any list" where
  "bucket s k = (case Values s k of Some (ASlice fs) \<Rightarrow> fs | _ \<Rightarrow> [])"

definition category_rank :: "string \<Rightarrow> nat" where
  "category_rank t =
     (if t = FlashSuccess then 0 else if t = FlashError then 1
      else if t = FlashWarning then 2 else 3)"

definition flash_types :: "string list" where
  "flash_types = [FlashSuccess, FlashError, FlashWarning, FlashInfo]"

text \<open>The context the framework hands to the chain for a request: nothing written yet.\<close>

definition new_Context :: "Request \<Rightarrow> Context" where
  "new_Context r =
     \<lparr>request = r,
      response = \<lparr>code = 0, content = NoBody, location = None, set_cookie = []\<rparr>,
      store = Map.empty,
      heap = (\<lambda>_. \<lparr>Values = Map.empty, IsNew = True\<rparr>),
      nalloc = 0,
      logs = []\<rparr>"

section \<open>Package config\<close>






section \<open>The migrate command\<close>

text \<open>
  A migration as \<^verbatim>\<open>MigrationsWithStatus\<close> reports it: its name and the time it was
  applied, the zero time when it is pending. Times are offsets from the zero time.
  The command runs against the files of the migrations directory; every call of
  \<^verbatim>\<open>os.Remove\<close> is recorded. \<^verbatim>\<open>fatalf\<close> writes to standard error and ends the
  process with status 1.
\<close>

record Migration =
  Name :: string
  MigratedAt :: int

definition IsZero :: "int \<Rightarrow> bool" where
  "IsZero t = (t = 0)"

datatype status = Done | Exit int

record World =
  files :: "string set"
  remove_calls :: "string list"
  stdout :: "string list"
  stderr :: "string list"

definition fatalf :: "string \<Rightarrow> World \<Rightarrow> status \<times> World" where
  "fatalf msg w = (Exit 1, w\<lparr>stderr := stderr w @ [''Error: '' @ msg @ [CHR 0x0A]]\<rparr>)"

definition os_Remove :: "string \<Rightarrow> World \<Rightarrow> error option \<times> World" where
  "os_Remove path w =
     (if path \<in> files w
      then (None, w\<lparr>files := files w - {path}, remove_calls := remove_calls w @ [path]\<rparr>)
      else (Some (Err (''remove '' @ path @ '': no such file or directory'')),
            w\<lparr>remove_calls := remove_calls w @ [path]\<rparr>))"

text \<open>The search loop of \<^verbatim>\<open>cmdDelete\<close>: the first migration of the name.\<close>

fun find_migration :: "Migration list \<Rightarrow> string \<Rightarrow> Migration option" where
  "find_migration [] name = None"
| "find_migration (m # ms) name =
     (if Name m = name then Some m else find_migration ms name)"

text \<open>
  \<open>Args\<close> is \<^verbatim>\<open>os.Args\<close>, \<open>ms_status\<close> the result of \<^verbatim>\<open>MigrationsWithStatus\<close>,
  \<open>migrationsDir\<close> the result of \<^verbatim>\<open>getMigrationsDir\<close>, and \<open>Join\<close> is \<^verbatim>\<open>filepath.Join\<close>.
\<close>

definition cmdDelete ::
  "string list \<Rightarrow> error + Migration list \<Rightarrow> string \<Rightarrow> (string \<Rightarrow> string \<Rightarrow> string) \<Rightarrow> World
     \<Rightarrow> status \<times> World" where
  "cmdDelete Args ms_status migrationsDir Join w =
     (if length Args < 3 then fatalf ''Usage: migrate delete <name>'' w
      else
        let name = Args ! 2 in
        case ms_status of
          Inl err \<Rightarrow> fatalf (''Failed to get migration status: '' @ err_Error err) w
        | Inr ms \<Rightarrow>
            (case find_migration ms name of
               None \<Rightarrow> fatalf (''Migration not found: '' @ name) w
             | Some found \<Rightarrow>
                 if \<not> IsZero (MigratedAt found)
                 then fatalf (''Cannot delete applied migration: '' @ name @ [CHR 0x0A] @
                              ''Run '' @ [CHR 0x27] @ ''migrate down'' @ [CHR 0x27] @
                              '' first to rollback'') w
                 else
                   let upFile = Join migrationsDir (name @ ''.up.sql'');
                       downFile = Join migrationsDir (name @ ''.down.sql'')
                   in case os_Remove upFile w of
                        (Some err, w1) \<Rightarrow>
                          fatalf (''Failed to delete '' @ upFile @ '': '' @ err_Error err) w1
                      | (None, w1) \<Rightarrow>
                          (let w2 = w1\<lparr>stdout := stdout w1 @ [''Deleted '' @ upFile @ [CHR 0x0A]]\<rparr>
                           in case os_Remove downFile w2 of
                                (Some err, w3) \<Rightarrow>
                                  fatalf (''Failed to delete '' @ downFile @ '': '' @ err_Error err) w3
                              | (None, w3) \<Rightarrow>
                                  (Done, w3\<lparr>stdout := stdout w3 @
                                                [''Deleted '' @ downFile @ [CHR 0x0A]]\<rparr>))))"

section \<open>The server's shutdown\<close>

text \<open>
  The part of the server's \<^verbatim>\<open>main\<close> that follows the receipt of the termination
  signal, as the main goroutine runs it. The calls that reach outside the program are
  recorded as events; \<open>shutdownErr\<close> and \<open>closeErr\<close> are what \<^verbatim>\<open>e.Shutdown\<close> and
  the pool's \<^verbatim>\<open>Close\<close> return. \<^verbatim>\<open>main\<close> ends by returning, which ends the process
  with status 0.
\<close>

datatype event =
    Shutdown_called int
  | Shutdown_returned "error option"
  | Close_called
  | Close_returned "error option"
  | cancel_called

record Proc =
  plog :: logger
  events :: "event list"

definition database_Close :: "error option \<Rightarrow> Proc \<Rightarrow> error option \<times> Proc" where
  "database_Close closeErr p =
     (closeErr, p\<lparr>plog := logger_Info ''closing database connection'' [] (plog p),
                 events := events p @ [Close_called, Close_returned closeErr]\<rparr>)"

definition main_after_signal ::
  "string \<Rightarrow> error option \<Rightarrow> error option \<Rightarrow> Proc \<Rightarrow> status \<times> Proc" where
  "main_after_signal sig shutdownErr closeErr p =
     (let p1 = p\<lparr>plog := logger_Info ''shutting down server'' [(''signal'', AStr sig)] (plog p)\<rparr>;
          p2 = p1\<lparr>events := events p1 @
                  [Shutdown_called (10 * Second), Shutdown_returned shutdownErr]\<rparr>;
          p3 = (case shutdownErr of
                  Some err \<Rightarrow> p2\<lparr>plog := logger_Error ''server shutdown error''
                                         [(''error'', AStr (err_Error err))] (plog p2)\<rparr>
                | None \<Rightarrow> p2);
          (err', p4) = database_Close closeErr p3;
          p5 = (case err' of
                  Some err \<Rightarrow> p4\<lparr>plog := logger_Error ''database close error''
                                         [(''error'', AStr (err_Error err))] (plog p4)\<rparr>
                | None \<Rightarrow> p4);
          p6 = p5\<lparr>plog := logger_Info ''server stopped'' [] (plog p5)\<rparr>;
          p7 = p6\<lparr>events := events p6 @ [cancel_called]\<rparr>
      in (Done, p7))"

section \<open>Example values\<close>

text \<open>
  A request with no form field, header or cookie; a session store whose codec accepts
  everything, and one whose encoder rejects every session as too long; a handler that
  panics.
\<close>

definition plain_request :: Request where
  "plain_request = \<lparr>form = [], header = [], cookie = None\<rparr>"

definition accepting_store :: CookieStore where
  "accepting_store = \<lparr>Encode = (\<lambda>vals. Inr ''c1''), Decode = (\<lambda>v. Inr Map.empty)\<rparr>"

definition rejecting_store :: CookieStore where
  "rejecting_store =
     \<lparr>Encode = (\<lambda>vals. Inl (Err ''securecookie: the value is too long'')),
      Decode = (\<lambda>v. Inr Map.empty)\<rparr>"

definition panicking_handler :: "Context \<Rightarrow> error option result \<times> Context" where
  "panicking_handler c = (Panic ''runtime error: invalid memory address'', c)"

text \<open>
  A store whose cookie holds the single success flash of the session, if there is one,
  and a page template that lists the flashes it is given.
\<close>

definition one_flash_store :: CookieStore where
  "one_flash_store =
     \<lparr>Encode = (\<lambda>vals. case vals ''success'' of
                         Some (ASlice [AStr m]) \<Rightarrow> Inr m
                       | _ \<Rightarrow> Inr []),
      Decode = (\<lambda>v. if v = [] then Inr Map.empty
                     else Inr [''success'' \<mapsto> ASlice [AStr v]])\<rparr>"

definition list_page :: "FlashMessage list \<Rightarrow> error + string" where
  "list_page flashes = Inr (concat (map (\<lambda>f. Type f @ '': '' @ Message f @ ''; '') flashes))"

section \<open>Properties\<close>

subsection \<open>The access log\<close>

lemma LogValuesFunc_appends:
  "\<exists>r. LogValuesFunc f v lg = (None, lg @ [r]) \<and>
       lr_level r = (if Status v \<ge> 500 then LevelError
                     else if Status v \<ge> 400 then LevelWarn else LevelInfo) \<and>
       take 6 (lr_args r) =
         [(''method'', AStr (Method v)), (''path'', AStr (URI v)),
          (''status'', AInt (Status v)), (''latency'', AStr (f (Latency v))),
          (''request_id'', AStr (RequestID v)), (''ip'', AStr (RemoteIP v))]"
  by (simp add: LogValuesFunc_def Let_def logger_Error_def logger_Warn_def logger_Info_def
      split: option.splits)

text \<open>
  C5. For every completed request the access-log stage hands exactly one record to the
  logger; its level is Error when the status is at least 500, Warn when the status is in
  400..499 and Info below 400; the record carries method, path, status, latency,
  request id and client address.
\<close>

theorem access_log_severity:
  "\<exists>r. LogValuesFunc f v lg = (None, lg @ [r]) \<and>
       (Status v \<ge> 500 \<longrightarrow> lr_level r = LevelError) \<and>
       (400 \<le> Status v \<and> Status v < 500 \<longrightarrow> lr_level r = LevelWarn) \<and>
       (Status v < 400 \<longrightarrow> lr_level r = LevelInfo) \<and>
       map_of (lr_args r) ''method'' = Some (AStr (Method v)) \<and>
       map_of (lr_args r) ''path'' = Some (AStr (URI v)) \<and>
       map_of (lr_args r) ''status'' = Some (AInt (Status v)) \<and>
       map_of (lr_args r) ''latency'' = Some (AStr (f (Latency v))) \<and>
       map_of (lr_args r) ''request_id'' = Some (AStr (RequestID v)) \<and>
       map_of (lr_args r) ''ip'' = Some (AStr (RemoteIP v))"
  by (simp add: LogValuesFunc_def Let_def logger_Error_def logger_Warn_def logger_Info_def
      split: option.splits)

theorem access_log_severity_witness:
  "(\<exists>r. LogValuesFunc (\<lambda>_. ''1ms'')
          \<lparr>Method = ''GET'', URI = ''/'', Status = 503, Latency = 1000000, RequestID = ''r1'',
           RemoteIP = ''10.0.0.1'', UserAgent = ''curl'', Error = None\<rparr> [] = (None, [r]) \<and>
        lr_level r = LevelError) \<and>
   (\<exists>r. LogValuesFunc (\<lambda>_. ''1ms'')
          \<lparr>Method = ''GET'', URI = ''/x'', Status = 404, Latency = 1000000, RequestID = ''r2'',
           RemoteIP = ''10.0.0.1'', UserAgent = ''curl'', Error = None\<rparr> [] = (None, [r]) \<and>
        lr_level r = LevelWarn) \<and>
   (\<exists>r. LogValuesFunc (\<lambda>_. ''1ms'')
          \<lparr>Method = ''GET'', URI = ''/'', Status = 200, Latency = 1000000, RequestID = ''r3'',
           RemoteIP = ''10.0.0.1'', UserAgent = ''curl'', Error = None\<rparr> [] = (None, [r]) \<and>
        lr_level r = LevelInfo)"
  using
    access_log_severity [of "\<lambda>_. ''1ms''"
      "\<lparr>Method = ''GET'', URI = ''/'', Status = 503, Latency = 1000000, RequestID = ''r1'',
        RemoteIP = ''10.0.0.1'', UserAgent = ''curl'', Error = None\<rparr>" "[]"]
    access_log_severity [of "\<lambda>_. ''1ms''"
      "\<lparr>Method = ''GET'', URI = ''/x'', Status = 404, Latency = 1000000, RequestID = ''r2'',
        RemoteIP = ''10.0.0.1'', UserAgent = ''curl'', Error = None\<rparr>" "[]"]
    access_log_severity [of "\<lambda>_. ''1ms''"
      "\<lparr>Method = ''GET'', URI = ''/'', Status = 200, Latency = 1000000, RequestID = ''r3'',
        RemoteIP = ''10.0.0.1'', UserAgent = ''curl'', Error = None\<rparr>" "[]"]
  by auto

subsection \<open>The health handler\<close>

text \<open>
  C6. The health handler answers 200 with a JSON body whose status is healthy and whose
  database is connected exactly when the liveness probe returns no error; when the probe
  returns an error it answers 503 with status unhealthy and database disconnected.
\<close>

theorem health_follows_probe:
  "\<exists>c' m. Health p now c = (Ok None, c') \<and> content (response c') = JSON m \<and>
     ((code (response c') = 200 \<and> m ''status'' = Some ''healthy'' \<and>
       m ''database'' = Some ''connected'') = (p = None)) \<and>
     (p \<noteq> None \<longrightarrow> code (response c') = 503 \<and> m ''status'' = Some ''unhealthy'' \<and>
       m ''database'' = Some ''disconnected'')"
  by (cases p)
     (simp_all add: Health_def HealthCheck_def c_JSON_def StatusOK_def
        StatusServiceUnavailable_def)

theorem health_follows_probe_witness:
  "(\<exists>c' m. Health None ''2024-01-01T00:00:00Z'' (new_Context \<lparr>form = [], header = [], cookie = None\<rparr>)
              = (Ok None, c') \<and> content (response c') = JSON m \<and>
            code (response c') = 200 \<and> m ''status'' = Some ''healthy'') \<and>
   (\<exists>c' m. Health (Some (Err ''connection refused'')) ''2024-01-01T00:00:00Z''
              (new_Context \<lparr>form = [], header = [], cookie = None\<rparr>)
              = (Ok None, c') \<and> content (response c') = JSON m \<and>
            code (response c') = 503 \<and> m ''status'' = Some ''unhealthy'' \<and>
            m ''database'' = Some ''disconnected'')"
  using
    health_follows_probe [of None "''2024-01-01T00:00:00Z''"
      "new_Context \<lparr>form = [], header = [], cookie = None\<rparr>"]
    health_follows_probe [of "Some (Err ''connection refused'')" "''2024-01-01T00:00:00Z''"
      "new_Context \<lparr>form = [], header = [], cookie = None\<rparr>"]
  by auto

subsection \<open>Flash messages\<close>

lemma Session_Flashes_Ok:
  "Session_Flashes k s = (Ok fs, s') \<Longrightarrow>
     Values s' = (Values s)(k := None) \<and> IsNew s' = IsNew s \<and> fs = bucket s k"
  by (auto simp: Session_Flashes_def bucket_def split: option.splits any.splits)

lemma Session_Flashes_absent:
  "Values s k = None \<Longrightarrow> Session_Flashes k s = (Ok [], s)"
  by (simp add: Session_Flashes_def)

lemma append_flashes_eq:
  "append_flashes t fs ms = ms @ append_flashes t fs []"
proof (induction fs arbitrary: ms)
  case Nil
  show ?case by simp
next
  case (Cons f fs)
  show ?case
  proof (cases f)
    case (AStr msg)
    have "append_flashes t (f # fs) ms = (ms @ [\<lparr>Type = t, Message = msg\<rparr>]) @ append_flashes t fs []"
      using Cons.IH [of "ms @ [\<lparr>Type = t, Message = msg\<rparr>]"] AStr by simp
    moreover have "append_flashes t (f # fs) [] = [\<lparr>Type = t, Message = msg\<rparr>] @ append_flashes t fs []"
      using Cons.IH [of "[\<lparr>Type = t, Message = msg\<rparr>]"] AStr by simp
    ultimately show ?thesis by simp
  next
    case (AInt n)
    then show ?thesis using Cons.IH [of ms] by simp
  next
    case (ASlice vs)
    then show ?thesis using Cons.IH [of ms] by simp
  qed
qed

lemma append_flashes_Type:
  "x \<in> set (append_flashes t fs []) \<Longrightarrow> Type x = t"
proof (induction fs)
  case Nil
  then show ?case by simp
next
  case (Cons f fs)
  then show ?case
    by (cases f) (auto simp: append_flashes_eq [of t fs "[_]"])
qed

lemma append_flashes_snoc:
  "append_flashes t (fs @ [AStr m]) [] = append_flashes t fs [] @ [\<lparr>Type = t, Message = m\<rparr>]"
proof (induction fs)
  case Nil
  show ?case by simp
next
  case (Cons f fs)
  then show ?case
    by (cases f) (simp_all add: append_flashes_eq [of t _ "[_]"])
qed

lemma GetFlashes_loop_Ok:
  "GetFlashes_loop ts ms s = (Ok out, s') \<Longrightarrow> distinct ts \<Longrightarrow>
     out = ms @ concat (map (\<lambda>t. append_flashes t (bucket s t) []) ts) \<and>
     Values s' = (\<lambda>k. if k \<in> set ts then None else Values s k) \<and>
     IsNew s' = IsNew s"
proof (induction ts arbitrary: ms s)
  case Nil
  then show ?case by auto
next
  case (Cons t ts)
  from Cons.prems(1) obtain fs s1 where
    fl: "Session_Flashes t s = (Ok fs, s1)" and
    rest: "GetFlashes_loop ts (append_flashes t fs ms) s1 = (Ok out, s')"
    by (auto split: prod.splits result.splits)
  from Session_Flashes_Ok [OF fl] have
    v1: "Values s1 = (Values s)(t := None)" and n1: "IsNew s1 = IsNew s" and fs: "fs = bucket s t"
    by simp_all
  from Cons.prems(2) have dts: "distinct ts" and tn: "t \<notin> set ts" by simp_all
  from Cons.IH [OF rest dts] have
    o: "out = append_flashes t fs ms @ concat (map (\<lambda>t. append_flashes t (bucket s1 t) []) ts)" and
    v: "Values s' = (\<lambda>k. if k \<in> set ts then None else Values s1 k)" and
    n: "IsNew s' = IsNew s1"
    by simp_all
  have b: "\<And>u. u \<in> set ts \<Longrightarrow> bucket s1 u = bucket s u"
    using tn v1 by (auto simp: bucket_def)
  have "map (\<lambda>t. append_flashes t (bucket s1 t) []) ts = map (\<lambda>t. append_flashes t (bucket s t) []) ts"
    using b by simp
  with o fs have "out = ms @ concat (map (\<lambda>t. append_flashes t (bucket s t) []) (t # ts))"
    using append_flashes_eq [of t "bucket s t" ms] by simp
  moreover have "Values s' = (\<lambda>k. if k \<in> set (t # ts) then None else Values s k)"
    using v v1 by auto
  ultimately show ?case using n n1 by simp
qed

lemma GetFlashes_loop_absent:
  "\<forall>t \<in> set ts. Values s t = None \<Longrightarrow> GetFlashes_loop ts ms s = (Ok ms, s)"
  by (induction ts arbitrary: ms) (simp_all add: Session_Flashes_absent)

lemma GetFlashes_again:
  assumes "GetFlashes c = (Ok ms, c')"
  shows "GetFlashes c' = (Ok [], c')"
proof (cases "GetSession c")
  case None
  with assms show ?thesis by (simp add: GetFlashes_def)
next
  case (Some a)
  from assms Some obtain s' where
    l: "GetFlashes_loop [FlashSuccess, FlashError, FlashWarning, FlashInfo] [] (heap c a) = (Ok ms, s')"
    and c': "c' = c\<lparr>heap := (heap c)(a := s')\<rparr>"
    by (auto simp: GetFlashes_def split: prod.splits)
  have d: "distinct [FlashSuccess, FlashError, FlashWarning, FlashInfo]"
    by (simp add: FlashSuccess_def FlashError_def FlashWarning_def FlashInfo_def)
  from GetFlashes_loop_Ok [OF l d] have
    "\<forall>t \<in> set [FlashSuccess, FlashError, FlashWarning, FlashInfo]. Values s' t = None"
    by simp
  then have "GetFlashes_loop [FlashSuccess, FlashError, FlashWarning, FlashInfo] [] s' = (Ok [], s')"
    by (rule GetFlashes_loop_absent)
  moreover have "GetSession c' = Some a" using Some c' by (simp add: GetSession_def)
  moreover have "heap c' a = s'" using c' by simp
  ultimately show ?thesis using c' by (simp add: GetFlashes_def)
qed

lemma flash_types_distinct: "distinct [FlashSuccess, FlashError, FlashWarning, FlashInfo]"
  by (simp add: FlashSuccess_def FlashError_def FlashWarning_def FlashInfo_def)

lemma GetFlashes_Ok:
  assumes "GetFlashes c = (Ok ms, c')" and "GetSession c = Some a"
  shows "ms = concat (map (\<lambda>t. append_flashes t (bucket (heap c a) t) [])
                 [FlashSuccess, FlashError, FlashWarning, FlashInfo])"
    and "c' = c\<lparr>heap := (heap c)(a := heap c' a)\<rparr>"
    and "Values (heap c' a) =
           (\<lambda>k. if k \<in> set [FlashSuccess, FlashError, FlashWarning, FlashInfo] then None
                else Values (heap c a) k)"
proof -
  from assms obtain s' where
    l: "GetFlashes_loop [FlashSuccess, FlashError, FlashWarning, FlashInfo] [] (heap c a) = (Ok ms, s')"
    and c': "c' = c\<lparr>heap := (heap c)(a := s')\<rparr>"
    by (auto simp: GetFlashes_def split: prod.splits)
  have h: "heap c' a = s'" using c' by simp
  note r = GetFlashes_loop_Ok [OF l flash_types_distinct]
  show "ms = concat (map (\<lambda>t. append_flashes t (bucket (heap c a) t) [])
                 [FlashSuccess, FlashError, FlashWarning, FlashInfo])"
    using r by simp
  show "c' = c\<lparr>heap := (heap c)(a := heap c' a)\<rparr>" using c' h by simp
  show "Values (heap c' a) =
           (\<lambda>k. if k \<in> set [FlashSuccess, FlashError, FlashWarning, FlashInfo] then None
                else Values (heap c a) k)"
    using r h by simp
qed

lemma sorted_const_key:
  "\<forall>x\<in>set xs. g x = (k::nat) \<Longrightarrow> sorted (map g xs)"
  by (induction xs) auto

lemma sorted_ranks:
  "sorted (map (\<lambda>x. category_rank (Type x))
     (concat (map (\<lambda>t. append_flashes t (f t) []) [FlashSuccess, FlashError, FlashWarning, FlashInfo])))"
proof -
  let ?g = "\<lambda>x. category_rank (Type x)"
  let ?A = "append_flashes FlashSuccess (f FlashSuccess) []"
  let ?B = "append_flashes FlashError (f FlashError) []"
  let ?C = "append_flashes FlashWarning (f FlashWarning) []"
  let ?D = "append_flashes FlashInfo (f FlashInfo) []"
  have k: "category_rank FlashSuccess = 0" "category_rank FlashError = 1"
       "category_rank FlashWarning = 2" "category_rank FlashInfo = 3"
    by (simp_all add: category_rank_def FlashSuccess_def FlashError_def FlashWarning_def FlashInfo_def)
  have a: "\<forall>x\<in>set ?A. ?g x = 0" using k by (auto dest: append_flashes_Type)
  have b: "\<forall>x\<in>set ?B. ?g x = 1" using k by (auto dest: append_flashes_Type)
  have c: "\<forall>x\<in>set ?C. ?g x = 2" using k by (auto dest: append_flashes_Type)
  have d: "\<forall>x\<in>set ?D. ?g x = 3" using k by (auto dest: append_flashes_Type)
  have "sorted (map ?g ?A @ map ?g ?B @ map ?g ?C @ map ?g ?D)"
    unfolding sorted_append
    using sorted_const_key [OF a] sorted_const_key [OF b] sorted_const_key [OF c]
      sorted_const_key [OF d] a b c d
    by auto
  then show ?thesis by simp
qed

text \<open>
  C10. The messages \<^verbatim>\<open>GetFlashes\<close> returns are grouped by category in the fixed order
  success, error, warning, info, whatever the order of the calls of \<^verbatim>\<open>AddFlash\<close>: a
  message of an earlier category stands before every message of a later one, and every
  returned message has one of the four categories.
\<close>

theorem GetFlashes_category_order:
  assumes "fst (GetFlashes c) = Ok ms"
  shows "(\<forall>i<length ms. \<forall>j<length ms.
            category_rank (Type (ms ! i)) < category_rank (Type (ms ! j)) \<longrightarrow> i < j) \<and>
         (\<forall>x\<in>set ms. Type x \<in> set flash_types)"
proof (cases "GetSession c")
  case None
  with assms show ?thesis by (simp add: GetFlashes_def)
next
  case (Some a)
  obtain c' where g: "GetFlashes c = (Ok ms, c')" using assms by (cases "GetFlashes c") simp
  note ms = GetFlashes_Ok(1) [OF g Some]
  have s: "sorted (map (\<lambda>x. category_rank (Type x)) ms)"
    unfolding ms by (rule sorted_ranks)
  have "i < j" if "i < length ms" "j < length ms"
      "category_rank (Type (ms ! i)) < category_rank (Type (ms ! j))" for i j
  proof (rule ccontr)
    assume "\<not> i < j"
    then have "j \<le> i" by simp
    with s that(1) have "map (\<lambda>x. category_rank (Type x)) ms ! j \<le> map (\<lambda>x. category_rank (Type x)) ms ! i"
      by (simp add: sorted_iff_nth_mono del: map_map)
    with that show False by simp
  qed
  moreover have "\<forall>x\<in>set ms. Type x \<in> set flash_types"
    unfolding ms flash_types_def by (auto dest: append_flashes_Type)
  ultimately show ?thesis by blast
qed

theorem GetFlashes_category_order_witness:
  "fst (GetFlashes (snd (AddFlash (snd (AddFlash (snd (AddFlash
          (c_Set ''session'' (SessionPtr 0) (new_Context \<lparr>form = [], header = [], cookie = None\<rparr>))
          FlashInfo ''saved as draft'')) FlashSuccess ''created'')) FlashError ''disk full'')))
     = Ok [\<lparr>Type = ''success'', Message = ''created''\<rparr>,
           \<lparr>Type = ''error'', Message = ''disk full''\<rparr>,
           \<lparr>Type = ''info'', Message = ''saved as draft''\<rparr>] \<and>
   category_rank ''success'' < category_rank ''error'' \<and> (0::nat) < 1"
proof -
  let ?c = "snd (AddFlash (snd (AddFlash (snd (AddFlash
          (c_Set ''session'' (SessionPtr 0) (new_Context \<lparr>form = [], header = [], cookie = None\<rparr>))
          FlashInfo ''saved as draft'')) FlashSuccess ''created'')) FlashError ''disk full'')"
  let ?ms = "[\<lparr>Type = ''success'', Message = ''created''\<rparr>,
           \<lparr>Type = ''error'', Message = ''disk full''\<rparr>,
           \<lparr>Type = ''info'', Message = ''saved as draft''\<rparr>]"
  have h: "fst (GetFlashes ?c) = Ok ?ms"
    by (simp add: GetFlashes_def GetSession_def AddFlash_def Session_AddFlash_def
        Session_Flashes_def c_Set_def new_Context_def
        FlashSuccess_def FlashError_def FlashWarning_def FlashInfo_def)
  from GetFlashes_category_order [OF h]
  have "category_rank (Type (?ms ! 0)) < category_rank (Type (?ms ! 1)) \<longrightarrow> (0::nat) < 1"
    by simp
  then show ?thesis using h by (simp add: category_rank_def FlashSuccess_def FlashError_def)
qed

subsection \<open>Reading flashes once\<close>

lemma Session_AddFlash_Ok:
  "Session_AddFlash v k s = (Ok (), s1) \<Longrightarrow>
     bucket s1 k = bucket s k @ [v] \<and> (\<forall>k'. k' \<noteq> k \<longrightarrow> Values s1 k' = Values s k') \<and>
     IsNew s1 = IsNew s"
  by (auto simp: Session_AddFlash_def bucket_def split: option.splits any.splits)

lemma count_concat_one_more:
  "distinct ts \<Longrightarrow> t \<in> set ts \<Longrightarrow> g t = f t @ [x] \<Longrightarrow>
   (\<forall>u\<in>set ts. u \<noteq> t \<longrightarrow> g u = f u) \<Longrightarrow>
   count_list (concat (map g ts)) x = Suc (count_list (concat (map f ts)) x)"
proof (induction ts)
  case Nil
  then show ?case by simp
next
  case (Cons u ts)
  show ?case
  proof (cases "u = t")
    case True
    with Cons.prems have "t \<notin> set ts" by simp
    with Cons.prems(4) have "map g ts = map f ts" by auto
    then have "concat (map g ts) = concat (map f ts)" by (rule arg_cong)
    with True Cons.prems(3) show ?thesis by simp
  next
    case False
    with Cons.prems have "t \<in> set ts" "distinct ts" "g u = f u"
      "\<forall>u\<in>set ts. u \<noteq> t \<longrightarrow> g u = f u" by auto
    with Cons.IH Cons.prems(3) show ?thesis by simp
  qed
qed

lemma AddFlash_then_GetFlashes:
  assumes s: "GetSession c = Some a"
      and t: "flashType \<in> set flash_types"
      and g0: "GetFlashes c = (Ok ms0, c0)"
      and ad: "AddFlash c flashType message = (Ok (), c1)"
      and g1: "GetFlashes c1 = (Ok ms, c2)"
  shows "count_list ms \<lparr>Type = flashType, Message = message\<rparr> =
           Suc (count_list ms0 \<lparr>Type = flashType, Message = message\<rparr>)"
proof -
  let ?F = "\<lambda>s t. append_flashes t (bucket s t) []"
  let ?ts = "[FlashSuccess, FlashError, FlashWarning, FlashInfo]"
  from ad s obtain s1 where
    a1: "Session_AddFlash (AStr message) flashType (heap c a) = (Ok (), s1)" and
    c1: "c1 = c\<lparr>heap := (heap c)(a := s1)\<rparr>"
    by (auto simp: AddFlash_def split: prod.splits)
  have s1: "GetSession c1 = Some a" and h1: "heap c1 a = s1"
    using s c1 by (simp_all add: GetSession_def)
  note b = Session_AddFlash_Ok [OF a1]
  have m0: "ms0 = concat (map (?F (heap c a)) ?ts)" by (rule GetFlashes_Ok(1) [OF g0 s])
  have m1: "ms = concat (map (?F s1) ?ts)" using GetFlashes_Ok(1) [OF g1 s1] h1 by simp
  have "?F s1 flashType = ?F (heap c a) flashType @ [\<lparr>Type = flashType, Message = message\<rparr>]"
    using b by (simp add: append_flashes_snoc)
  moreover have "\<forall>u\<in>set ?ts. u \<noteq> flashType \<longrightarrow> ?F s1 u = ?F (heap c a) u"
    using b by (simp add: bucket_def)
  moreover have "flashType \<in> set ?ts" using t by (simp add: flash_types_def)
  ultimately show ?thesis
    unfolding m0 m1 using flash_types_distinct by (intro count_concat_one_more) 
qed

lemma before_no_cookie:
  "cookie (request c) = None \<Longrightarrow>
   sessionMiddleware_before st c =
     (nalloc c, c\<lparr>heap := (heap c)(nalloc c := \<lparr>Values = Map.empty, IsNew = True\<rparr>),
                  nalloc := Suc (nalloc c),
                  store := (store c)(''session'' \<mapsto> SessionPtr (nalloc c))\<rparr>)"
  by (simp add: sessionMiddleware_before_def CookieStore_Get_def CookieStore_New_def
      c_Set_def Let_def)

lemma before_decoded:
  "cookie (request c) = Some v \<Longrightarrow> Decode st v = Inr vals \<Longrightarrow>
   sessionMiddleware_before st c =
     (nalloc c, c\<lparr>heap := (heap c)(nalloc c := \<lparr>Values = vals, IsNew = False\<rparr>),
                  nalloc := Suc (nalloc c),
                  store := (store c)(''session'' \<mapsto> SessionPtr (nalloc c))\<rparr>)"
  by (simp add: sessionMiddleware_before_def CookieStore_Get_def CookieStore_New_def
      c_Set_def Let_def)

lemma before_corrupt:
  "cookie (request c) = Some v \<Longrightarrow> Decode st v = Inl e \<Longrightarrow>
   sessionMiddleware_before st c =
     (Suc (nalloc c),
      c\<lparr>logs := logger_Warn ''session decode error, creating new session''
                   [(''error'', AStr (err_Error e))] (logs c),
        heap := (heap c)(nalloc c := \<lparr>Values = Map.empty, IsNew = True\<rparr>,
                         Suc (nalloc c) := \<lparr>Values = Map.empty, IsNew = True\<rparr>),
        nalloc := Suc (Suc (nalloc c)),
        store := (store c)(''session'' \<mapsto> SessionPtr (Suc (nalloc c)))\<rparr>)"
  by (simp add: sessionMiddleware_before_def CookieStore_Get_def CookieStore_New_def
      c_Set_def Let_def)

lemma next_request_sees_none:
  assumes v: "\<forall>t\<in>set flash_types. vals t = None"
      and d: "Decode st v = Inr vals"
      and k: "cookie (request c') = Some v"
  shows "fst (GetFlashes (snd (sessionMiddleware_before st c'))) = Ok []"
proof -
  let ?a = "nalloc c'"
  let ?c = "snd (sessionMiddleware_before st c')"
  have g: "GetSession ?c = Some ?a"
    by (simp add: before_decoded [OF k d] GetSession_def)
  have h: "Values (heap ?c ?a) = vals"
    by (simp add: before_decoded [OF k d])
  have "GetFlashes_loop [FlashSuccess, FlashError, FlashWarning, FlashInfo] [] (heap ?c ?a)
          = (Ok [], heap ?c ?a)"
    using v h by (intro GetFlashes_loop_absent) (simp add: flash_types_def)
  with g show ?thesis by (simp add: GetFlashes_def)
qed

text \<open>
  C2. Flash messages are read once. A message added to the session of a request under one
  of the four categories is returned by the next \<^verbatim>\<open>GetFlashes\<close> exactly once more often
  than a read without the add would have returned it; a later \<^verbatim>\<open>GetFlashes\<close> on the
  session returns nothing; and in a subsequent request that carries the cookie persisted
  after the read, the session stage hands the handler a session whose \<^verbatim>\<open>GetFlashes\<close>
  returns nothing.
\<close>

theorem flash_read_once:
  assumes "GetSession c = Some a"
      and "flashType \<in> set flash_types"
      and "GetFlashes c = (Ok ms0, c0)"
      and "AddFlash c flashType message = (Ok (), c1)"
      and "GetFlashes c1 = (Ok ms, c2)"
      and "Session_Save st a c2 = (None, c3)"
      and "set_cookie (response c3) = set_cookie (response c2) @ [(SessionName, v)]"
      and "Decode st v = Inr (Values (heap c2 a))"
      and "cookie (request c') = Some v"
  shows "count_list ms \<lparr>Type = flashType, Message = message\<rparr> =
           Suc (count_list ms0 \<lparr>Type = flashType, Message = message\<rparr>) \<and>
         GetFlashes c2 = (Ok [], c2) \<and>
         fst (GetFlashes (snd (sessionMiddleware_before st c'))) = Ok []"
proof -
  from assms(4,1) obtain s1 where c1: "c1 = c\<lparr>heap := (heap c)(a := s1)\<rparr>"
    by (auto simp: AddFlash_def split: prod.splits)
  then have s1: "GetSession c1 = Some a" using assms(1) by (simp add: GetSession_def)
  have "\<forall>t\<in>set flash_types. Values (heap c2 a) t = None"
    using GetFlashes_Ok(3) [OF assms(5) s1] by (simp add: flash_types_def)
  from next_request_sees_none [OF this assms(8,9)]
  show ?thesis
    using AddFlash_then_GetFlashes [OF assms(1-5)] GetFlashes_again [OF assms(5)] by simp
qed


theorem flash_read_once_witness:
  "GetSession (c_Set ''session'' (SessionPtr 0)
        (new_Context \<lparr>form = [], header = [], cookie = None\<rparr>)) = Some 0 \<and>
   FlashSuccess \<in> set flash_types \<and>
   fst (GetFlashes (snd (AddFlash (c_Set ''session'' (SessionPtr 0)
        (new_Context \<lparr>form = [], header = [], cookie = None\<rparr>)) FlashSuccess ''Hello, World!'')))
     = Ok [\<lparr>Type = FlashSuccess, Message = ''Hello, World!''\<rparr>] \<and>
   fst (GetFlashes (snd (GetFlashes (snd (AddFlash (c_Set ''session'' (SessionPtr 0)
        (new_Context \<lparr>form = [], header = [], cookie = None\<rparr>)) FlashSuccess ''Hello, World!'')))))
     = Ok [] \<and>
   fst (GetFlashes (snd (sessionMiddleware_before
        \<lparr>Encode = (\<lambda>_. Inr ''c1''), Decode = (\<lambda>_. Inr Map.empty)\<rparr>
        (new_Context \<lparr>form = [], header = [], cookie = Some ''c1''\<rparr>)))) = Ok []"
proof -
  let ?st = "\<lparr>Encode = (\<lambda>_. Inr ''c1''), Decode = (\<lambda>_. Inr Map.empty)\<rparr>"
  let ?c = "c_Set ''session'' (SessionPtr 0) (new_Context \<lparr>form = [], header = [], cookie = None\<rparr>)"
  let ?c1 = "snd (AddFlash ?c FlashSuccess ''Hello, World!'')"
  let ?c2 = "snd (GetFlashes ?c1)"
  let ?c3 = "snd (Session_Save ?st 0 ?c2)"
  let ?c' = "new_Context \<lparr>form = [], header = [], cookie = Some ''c1''\<rparr>"
  note defs = GetFlashes_def GetSession_def AddFlash_def Session_AddFlash_def
    Session_Flashes_def c_Set_def new_Context_def Session_Save_def SessionName_def
    FlashSuccess_def FlashError_def FlashWarning_def FlashInfo_def flash_types_def
  have h1: "GetSession ?c = Some 0" by (simp add: defs)
  have h2: "FlashSuccess \<in> set flash_types" by (simp add: defs)
  have h3: "GetFlashes ?c = (Ok [], snd (GetFlashes ?c))" by (simp add: defs)
  have h4: "AddFlash ?c FlashSuccess ''Hello, World!'' = (Ok (), ?c1)" by (simp add: defs)
  have h5: "GetFlashes ?c1 = (Ok [\<lparr>Type = FlashSuccess, Message = ''Hello, World!''\<rparr>], ?c2)"
    by (simp add: defs)
  have h6: "Session_Save ?st 0 ?c2 = (None, ?c3)" by (simp add: defs)
  have h7: "set_cookie (response ?c3) = set_cookie (response ?c2) @ [(SessionName, ''c1'')]"
    by (simp add: defs)
  have h8: "Decode ?st ''c1'' = Inr (Values (heap ?c2 0))" by (simp add: defs)
  have h9: "cookie (request ?c') = Some ''c1''" by (simp add: defs)
  have f5: "fst (GetFlashes ?c1) = Ok [\<lparr>Type = FlashSuccess, Message = ''Hello, World!''\<rparr>]"
    by (simp add: defs)
  note r = flash_read_once [OF h1 h2 h3 h4 h5 h6 h7 h8 h9]
  from r have a: "fst (GetFlashes ?c2) = Ok []" by simp
  from r have b: "fst (GetFlashes (snd (sessionMiddleware_before ?st ?c'))) = Ok []" by simp
  show ?thesis using h1 h2 f5 a b by blast
qed

text \<open>
  Three requests in a row: a greeting without a name, then the home page twice, each
  request carrying the cookie of the response before. The first home page shows the
  greeting, the second shows nothing.
\<close>

lemma greet_then_home_twice:
  "response (snd (sessionMiddleware one_flash_store Greet (new_Context plain_request)))
     = \<lparr>code = 303, content = NoBody, location = Some ''/'',
        set_cookie = [(''session'', ''Hello, World!'')]\<rparr> \<and>
   response (snd (sessionMiddleware one_flash_store (Home list_page)
       (new_Context (plain_request\<lparr>cookie := Some ''Hello, World!''\<rparr>))))
     = \<lparr>code = 200, content = Text ''success: Hello, World!; '', location = None,
        set_cookie = [(''session'', [])]\<rparr> \<and>
   response (snd (sessionMiddleware one_flash_store (Home list_page)
       (new_Context (plain_request\<lparr>cookie := Some []\<rparr>))))
     = \<lparr>code = 200, content = Text [], location = None,
        set_cookie = [(''session'', [])]\<rparr>"
  by (simp add: sessionMiddleware_def sessionMiddleware_before_def sessionMiddleware_after_def
      CookieStore_Get_def CookieStore_New_def Session_Save_def c_Set_def Let_def
      new_Context_def plain_request_def one_flash_store_def list_page_def
      Greet_def Home_def FormValue_def Header_Get_def AddFlash_def GetFlashes_def
      GetSession_def Session_AddFlash_def Session_Flashes_def c_Redirect_def Writer_Write_def
      StatusSeeOther_def SessionName_def
      FlashSuccess_def FlashError_def FlashWarning_def FlashInfo_def)

subsection \<open>The session stage\<close>

lemma sessionMiddleware_outcome:
  "sessionMiddleware_before st c = (a, c1) \<Longrightarrow>
   fst (sessionMiddleware st next c) = fst (next c1)"
  by (simp add: sessionMiddleware_def sessionMiddleware_after_def
      split: prod.splits result.splits option.splits)

text \<open>
  C7. A request whose session cookie fails to decode is not failed by the session stage:
  the stage logs a warning, binds a fresh empty session under the context key
  \<^verbatim>\<open>session\<close>, leaves request and response as they were, and calls the inner handler;
  the stage's outcome is the inner handler's outcome.
\<close>

theorem corrupt_cookie_tolerated:
  assumes "cookie (request c) = Some v" and "Decode st v = Inl e"
  shows "\<exists>a c1. sessionMiddleware_before st c = (a, c1) \<and>
           logs c1 = logs c @ [\<lparr>lr_level = LevelWarn,
                                lr_msg = ''session decode error, creating new session'',
                                lr_args = [(''error'', AStr (err_Error e))]\<rparr>] \<and>
           GetSession c1 = Some a \<and> Values (heap c1 a) = Map.empty \<and>
           request c1 = request c \<and> response c1 = response c \<and>
           (\<forall>next. fst (sessionMiddleware st next c) = fst (next c1))"
proof -
  note b = before_corrupt [OF assms]
  show ?thesis
    using sessionMiddleware_outcome [OF b]
    by (simp add: b GetSession_def logger_Warn_def)
qed

theorem corrupt_cookie_tolerated_witness:
  "cookie (request (new_Context \<lparr>form = [], header = [], cookie = Some ''tampered''\<rparr>))
     = Some ''tampered'' \<and>
   Decode \<lparr>Encode = (\<lambda>_. Inr ''c1''), Decode = (\<lambda>_. Inl (Err ''invalid signature''))\<rparr>
     ''tampered'' = Inl (Err ''invalid signature'') \<and>
   (\<exists>a c1. sessionMiddleware_before
              \<lparr>Encode = (\<lambda>_. Inr ''c1''), Decode = (\<lambda>_. Inl (Err ''invalid signature''))\<rparr>
              (new_Context \<lparr>form = [], header = [], cookie = Some ''tampered''\<rparr>) = (a, c1) \<and>
            logs c1 = [\<lparr>lr_level = LevelWarn,
                        lr_msg = ''session decode error, creating new session'',
                        lr_args = [(''error'', AStr ''invalid signature'')]\<rparr>] \<and>
            GetSession c1 = Some a \<and> Values (heap c1 a) = Map.empty \<and>
            fst (sessionMiddleware
              \<lparr>Encode = (\<lambda>_. Inr ''c1''), Decode = (\<lambda>_. Inl (Err ''invalid signature''))\<rparr>
              Greet (new_Context \<lparr>form = [], header = [], cookie = Some ''tampered''\<rparr>))
              = fst (Greet c1))"
proof -
  let ?st = "\<lparr>Encode = (\<lambda>_. Inr ''c1''), Decode = (\<lambda>_. Inl (Err ''invalid signature''))\<rparr>"
  let ?c = "new_Context \<lparr>form = [], header = [], cookie = Some ''tampered''\<rparr>"
  have h1: "cookie (request ?c) = Some ''tampered''" by (simp add: new_Context_def)
  have h2: "Decode ?st ''tampered'' = Inl (Err ''invalid signature'')" by simp
  have l: "logs ?c = []" by (simp add: new_Context_def)
  from corrupt_cookie_tolerated [OF h1 h2] l
  show ?thesis using h1 h2 by auto
qed

text \<open>
  C1, as the code has it. When the inner chain returns, with nil or with an error, the
  session stage encodes the session as the handler left it; when the encoding succeeds
  it adds the session cookie to the response, whether or not the request carried one;
  when the encoding fails it logs the failure and writes no cookie. When the inner chain
  panics, the panic leaves the stage at once and the stage saves nothing.
\<close>

theorem session_cookie_written_on_return:
  assumes "sessionMiddleware_before st c = (a, c1)"
  shows "(\<forall>err c2 v. next c1 = (Ok err, c2) \<and> Encode st (Values (heap c2 a)) = Inr v \<longrightarrow>
            sessionMiddleware st next c =
              (Ok err, c2\<lparr>response := (response c2)
                             \<lparr>set_cookie := set_cookie (response c2) @ [(SessionName, v)]\<rparr>\<rparr>)) \<and>
         (\<forall>err c2 e. next c1 = (Ok err, c2) \<and> Encode st (Values (heap c2 a)) = Inl e \<longrightarrow>
            sessionMiddleware st next c =
              (Ok err, c2\<lparr>logs := logs c2 @ [\<lparr>lr_level = LevelError,
                                                lr_msg = ''failed to save session'',
                                                lr_args = [(''error'', AStr (err_Error e))]\<rparr>]\<rparr>)) \<and>
         (\<forall>p c2. next c1 = (Panic p, c2) \<longrightarrow> sessionMiddleware st next c = (Panic p, c2))"
  using assms
  by (simp add: sessionMiddleware_def sessionMiddleware_after_def Session_Save_def
      logger_Error_def)

text \<open>
  C1 as stated fails: a handler that panics leaves the response without a session
  cookie, and so does a greeting whose session cannot be encoded.
\<close>

theorem session_cookie_counterexample:
  "fst (sessionMiddleware accepting_store panicking_handler (new_Context plain_request))
     = Panic ''runtime error: invalid memory address'' \<and>
   set_cookie (response (snd
     (sessionMiddleware accepting_store panicking_handler (new_Context plain_request)))) = [] \<and>
   fst (sessionMiddleware rejecting_store Greet (new_Context plain_request)) = Ok None \<and>
   set_cookie (response (snd
     (sessionMiddleware rejecting_store Greet (new_Context plain_request)))) = []"
  by (simp add: sessionMiddleware_def sessionMiddleware_after_def Session_Save_def
      before_no_cookie new_Context_def Greet_def FormValue_def Header_Get_def AddFlash_def
      GetSession_def Session_AddFlash_def c_Redirect_def FlashSuccess_def
      plain_request_def accepting_store_def rejecting_store_def panicking_handler_def)

theorem session_cookie_written_on_return_witness:
  "sessionMiddleware_before \<lparr>Encode = (\<lambda>_. Inr ''c1''), Decode = (\<lambda>_. Inr Map.empty)\<rparr>
      (new_Context \<lparr>form = [], header = [], cookie = None\<rparr>)
     = (0, snd (sessionMiddleware_before
              \<lparr>Encode = (\<lambda>_. Inr ''c1''), Decode = (\<lambda>_. Inr Map.empty)\<rparr>
              (new_Context \<lparr>form = [], header = [], cookie = None\<rparr>))) \<and>
   set_cookie (response (snd (sessionMiddleware
      \<lparr>Encode = (\<lambda>_. Inr ''c1''), Decode = (\<lambda>_. Inr Map.empty)\<rparr>
      Greet (new_Context \<lparr>form = [], header = [], cookie = None\<rparr>)))) = [(''session'', ''c1'')] \<and>
   logs (snd (sessionMiddleware
      \<lparr>Encode = (\<lambda>_. Inl (Err ''too long'')), Decode = (\<lambda>_. Inr Map.empty)\<rparr>
      Greet (new_Context \<lparr>form = [], header = [], cookie = None\<rparr>)))
     = [\<lparr>lr_level = LevelError, lr_msg = ''failed to save session'',
         lr_args = [(''error'', AStr ''too long'')]\<rparr>] \<and>
   fst (sessionMiddleware
      \<lparr>Encode = (\<lambda>_. Inr ''c1''), Decode = (\<lambda>_. Inr Map.empty)\<rparr>
      (\<lambda>c. (Panic ''boom'', c))
      (new_Context \<lparr>form = [], header = [], cookie = None\<rparr>)) = Panic ''boom''"
proof -
  let ?st1 = "\<lparr>Encode = (\<lambda>_. Inr ''c1''), Decode = (\<lambda>_. Inr Map.empty)\<rparr>"
  let ?st2 = "\<lparr>Encode = (\<lambda>_. Inl (Err ''too long'')), Decode = (\<lambda>_. Inr Map.empty)\<rparr>"
  let ?c = "new_Context \<lparr>form = [], header = [], cookie = None\<rparr>"
  let ?c1 = "snd (sessionMiddleware_before ?st1 ?c)"
  let ?d1 = "snd (sessionMiddleware_before ?st2 ?c)"
  note defs = before_no_cookie new_Context_def Greet_def FormValue_def Header_Get_def
    AddFlash_def GetSession_def Session_AddFlash_def c_Redirect_def FlashSuccess_def
    SessionName_def
  have b1: "sessionMiddleware_before ?st1 ?c = (0, ?c1)" by (simp add: defs)
  have b2: "sessionMiddleware_before ?st2 ?c = (0, ?d1)" by (simp add: defs)
  have g1: "Greet ?c1 = (Ok None, snd (Greet ?c1))" by (simp add: defs)
  have g2: "Greet ?d1 = (Ok None, snd (Greet ?d1))" by (simp add: defs)
  have e1: "Encode ?st1 (Values (heap (snd (Greet ?c1)) 0)) = Inr ''c1''" by simp
  have e2: "Encode ?st2 (Values (heap (snd (Greet ?d1)) 0)) = Inl (Err ''too long'')" by simp
  have p: "(\<lambda>c. (Panic ''boom'', c)) ?c1 = (Panic ''boom'', ?c1)" by simp
  from session_cookie_written_on_return [OF b1, of Greet] g1 e1
  have r1: "sessionMiddleware ?st1 Greet ?c =
      (Ok None, (snd (Greet ?c1))\<lparr>response := (response (snd (Greet ?c1)))
         \<lparr>set_cookie := set_cookie (response (snd (Greet ?c1))) @ [(SessionName, ''c1'')]\<rparr>\<rparr>)"
    by blast
  from session_cookie_written_on_return [OF b2, of Greet] g2 e2
  have r2: "sessionMiddleware ?st2 Greet ?c =
      (Ok None, (snd (Greet ?d1))\<lparr>logs := logs (snd (Greet ?d1)) @
         [\<lparr>lr_level = LevelError, lr_msg = ''failed to save session'',
           lr_args = [(''error'', AStr (err_Error (Err ''too long'')))]\<rparr>]\<rparr>)"
    by blast
  have r3: "sessionMiddleware ?st1 (\<lambda>c. (Panic ''boom'', c)) ?c = (Panic ''boom'', ?c1)"
    by (rule session_cookie_written_on_return [OF b1, of "\<lambda>c. (Panic ''boom'', c)",
          THEN conjunct2, THEN conjunct2, rule_format]) simp
  have s1: "set_cookie (response (snd (Greet ?c1))) = []" by (simp add: defs)
  have s2: "logs (snd (Greet ?d1)) = []" by (simp add: defs)
  show ?thesis
    unfolding r1 r2 r3 using b1 s1 s2 by (simp add: SessionName_def)
qed

text \<open>
  C8. In the greeting handler a missing or empty form field \<^verbatim>\<open>name\<close> is replaced by
  \<^verbatim>\<open>World\<close> on both branches: the fragment returned to an HTMX request greets World,
  and otherwise the flash message added before the redirect greets World.
\<close>

theorem greet_defaults_to_World:
  assumes "map_of (form (request c)) ''name'' = None \<or>
           map_of (form (request c)) ''name'' = Some []"
  shows "(Header_Get c ''HX-Request'' = ''true'' \<longrightarrow>
            Greet c = (Ok None, c_HTML 200 (''Hello, World! '' @ wave) c)) \<and>
         (Header_Get c ''HX-Request'' \<noteq> ''true'' \<longrightarrow>
            Greet c = (case AddFlash c ''success'' ''Hello, World!'' of
                         (Panic p, c1) \<Rightarrow> (Panic p, c1)
                       | (Ok u, c1) \<Rightarrow> (Ok None, c_Redirect 303 ''/'' c1)))"
  unfolding Greet_def FormValue_def StatusOK_def StatusSeeOther_def FlashSuccess_def Let_def
  using assms by auto


theorem greet_defaults_to_World_witness:
  "map_of (form (request (c_Set ''session'' (SessionPtr 0)
       (new_Context \<lparr>form = [], header = [(''HX-Request'', ''true'')], cookie = None\<rparr>)))) ''name''
     = None \<and>
   content (response (snd (Greet (c_Set ''session'' (SessionPtr 0)
       (new_Context \<lparr>form = [], header = [(''HX-Request'', ''true'')], cookie = None\<rparr>)))))
     = Text (''Hello, World! '' @ wave) \<and>
   map_of (form (request (c_Set ''session'' (SessionPtr 0)
       (new_Context \<lparr>form = [(''name'', [])], header = [], cookie = None\<rparr>)))) ''name''
     = Some [] \<and>
   location (response (snd (Greet (c_Set ''session'' (SessionPtr 0)
       (new_Context \<lparr>form = [(''name'', [])], header = [], cookie = None\<rparr>))))) = Some ''/'' \<and>
   fst (GetFlashes (snd (Greet (c_Set ''session'' (SessionPtr 0)
       (new_Context \<lparr>form = [(''name'', [])], header = [], cookie = None\<rparr>)))))
     = Ok [\<lparr>Type = ''success'', Message = ''Hello, World!''\<rparr>]"
proof -
  let ?c = "c_Set ''session'' (SessionPtr 0)
       (new_Context \<lparr>form = [], header = [(''HX-Request'', ''true'')], cookie = None\<rparr>)"
  let ?d = "c_Set ''session'' (SessionPtr 0)
       (new_Context \<lparr>form = [(''name'', [])], header = [], cookie = None\<rparr>)"
  note defs = c_Set_def new_Context_def Header_Get_def AddFlash_def GetSession_def
    Session_AddFlash_def c_Redirect_def c_HTML_def GetFlashes_def Session_Flashes_def
    FlashSuccess_def FlashError_def FlashWarning_def FlashInfo_def
  have h1: "map_of (form (request ?c)) ''name'' = None" by (simp add: defs)
  have h2: "map_of (form (request ?d)) ''name'' = Some []" by (simp add: defs)
  have x1: "Header_Get ?c ''HX-Request'' = ''true''" by (simp add: defs)
  have x2: "Header_Get ?d ''HX-Request'' \<noteq> ''true''" by (simp add: defs)
  from greet_defaults_to_World [of ?c] h1 x1
  have r1: "Greet ?c = (Ok None, c_HTML 200 (''Hello, World! '' @ wave) ?c)" by blast
  from greet_defaults_to_World [of ?d] h2 x2
  have r2: "Greet ?d = (case AddFlash ?d ''success'' ''Hello, World!'' of
                         (Panic p, c1) \<Rightarrow> (Panic p, c1)
                       | (Ok u, c1) \<Rightarrow> (Ok None, c_Redirect 303 ''/'' c1))" by blast
  show ?thesis
    unfolding r1 r2 by (simp add: defs)
qed

subsection \<open>Loading the configuration\<close>



subsection \<open>Deleting a migration\<close>

lemma find_migration_distinct:
  "distinct (map Name ms) \<Longrightarrow> m \<in> set ms \<Longrightarrow> find_migration ms (Name m) = Some m"
  by (induction ms) (auto simp: rev_image_eqI)

lemma cmdDelete_first_applied:
  assumes "find_migration ms (Args ! 2) = Some found" and "\<not> IsZero (MigratedAt found)"
  shows "\<exists>w'. cmdDelete Args (Inr ms) dir Join w = (Exit 1, w') \<and>
              files w' = files w \<and> remove_calls w' = remove_calls w \<and> stdout w' = stdout w"
  using assms by (simp add: cmdDelete_def fatalf_def)

text \<open>
  C3. Deleting an applied migration is refused before any file is touched: when the
  named migration's applied-at time is not the zero time, \<^verbatim>\<open>migrate delete\<close> exits with
  status 1, no call of \<^verbatim>\<open>os.Remove\<close> is made and the files are as before. Names of
  reported migrations are distinct.
\<close>

theorem delete_refuses_applied:
  assumes "m \<in> set ms" and "distinct (map Name ms)" and "\<not> IsZero (MigratedAt m)"
      and "Args = prog # cmd # Name m # rest"
  shows "\<exists>w'. cmdDelete Args (Inr ms) migrationsDir Join w = (Exit 1, w') \<and>
              files w' = files w \<and> remove_calls w' = remove_calls w"
proof -
  have "Args ! 2 = Name m" using assms(4) by simp
  with find_migration_distinct [OF assms(2,1)]
  have "find_migration ms (Args ! 2) = Some m" by simp
  from cmdDelete_first_applied [OF this assms(3)] show ?thesis by blast
qed

theorem delete_refuses_applied_witness:
  "\<lparr>Name = ''20240101120000'', MigratedAt = 1704110400\<rparr>
     \<in> set [\<lparr>Name = ''20240101120000'', MigratedAt = 1704110400\<rparr>,
            \<lparr>Name = ''20240202120000'', MigratedAt = 0\<rparr>] \<and>
   distinct (map Name [\<lparr>Name = ''20240101120000'', MigratedAt = 1704110400\<rparr>,
            \<lparr>Name = ''20240202120000'', MigratedAt = 0\<rparr>]) \<and>
   \<not> IsZero (MigratedAt \<lparr>Name = ''20240101120000'', MigratedAt = 1704110400\<rparr>) \<and>
   (\<exists>w'. cmdDelete [''migrate'', ''delete'', ''20240101120000'']
            (Inr [\<lparr>Name = ''20240101120000'', MigratedAt = 1704110400\<rparr>,
                  \<lparr>Name = ''20240202120000'', MigratedAt = 0\<rparr>])
            ''migrations'' (\<lambda>d f. d @ ''/'' @ f)
            \<lparr>files = {''migrations/20240101120000.up.sql'', ''migrations/20240101120000.down.sql''},
             remove_calls = [], stdout = [], stderr = []\<rparr> = (Exit 1, w') \<and>
          files w' = {''migrations/20240101120000.up.sql'', ''migrations/20240101120000.down.sql''} \<and>
          remove_calls w' = [])"
proof -
  let ?m = "\<lparr>Name = ''20240101120000'', MigratedAt = 1704110400\<rparr>"
  let ?ms = "[?m, \<lparr>Name = ''20240202120000'', MigratedAt = 0\<rparr>]"
  let ?w = "\<lparr>files = {''migrations/20240101120000.up.sql'', ''migrations/20240101120000.down.sql''},
             remove_calls = [], stdout = [], stderr = []\<rparr>"
  have h1: "?m \<in> set ?ms" by simp
  have h2: "distinct (map Name ?ms)" by simp
  have h3: "\<not> IsZero (MigratedAt ?m)" by (simp add: IsZero_def)
  have h4: "[''migrate'', ''delete'', ''20240101120000''] = ''migrate'' # ''delete'' # Name ?m # []"
    by simp
  from delete_refuses_applied [OF h1 h2 h3 h4, of "''migrations''" "\<lambda>d f. d @ ''/'' @ f" ?w]
  show ?thesis using h1 h2 h3 by simp
qed

subsection \<open>Shutting down\<close>

lemma error_always_written:
  "r \<in> set lg \<Longrightarrow> lr_level r = LevelError \<Longrightarrow> r \<in> set (written (Init_logLevel ToLower lvl) lg)"
  by (simp add: written_def Init_logLevel_def Let_def)

text \<open>
  C4. After the termination signal the pool is closed only once the listener's
  \<^verbatim>\<open>Shutdown\<close> has returned, whatever it returned: no close precedes that return and
  exactly one follows it. An error of \<^verbatim>\<open>Shutdown\<close> or of the close is logged at error
  level (and written under every level the logger can be set to) and does not stop the
  sequence: \<^verbatim>\<open>main\<close> logs that the server stopped and returns.
\<close>

theorem shutdown_sequence:
  "\<exists>p' pre post.
     main_after_signal sig shutdownErr closeErr p = (Done, p') \<and>
     events p' = events p @ pre @ [Shutdown_returned shutdownErr] @ post \<and>
     Close_called \<notin> set pre \<and> count_list post Close_called = 1 \<and>
     (\<forall>e. shutdownErr = Some e \<longrightarrow>
        \<lparr>lr_level = LevelError, lr_msg = ''server shutdown error'',
         lr_args = [(''error'', AStr (err_Error e))]\<rparr>
          \<in> set (written (Init_logLevel ToLower lvl) (plog p'))) \<and>
     (\<forall>e. closeErr = Some e \<longrightarrow>
        \<lparr>lr_level = LevelError, lr_msg = ''database close error'',
         lr_args = [(''error'', AStr (err_Error e))]\<rparr>
          \<in> set (written (Init_logLevel ToLower lvl) (plog p'))) \<and>
     last (plog p') = \<lparr>lr_level = LevelInfo, lr_msg = ''server stopped'', lr_args = []\<rparr>"
proof -
  define p' where "p' = snd (main_after_signal sig shutdownErr closeErr p)"
  have "fst (main_after_signal sig shutdownErr closeErr p) = Done"
    by (simp add: main_after_signal_def database_Close_def Let_def)
  then have m: "main_after_signal sig shutdownErr closeErr p = (Done, p')"
    by (simp add: p'_def prod_eq_iff)
  have ev: "events p' = events p @ [Shutdown_called (10 * Second)] @ [Shutdown_returned shutdownErr]
              @ [Close_called, Close_returned closeErr, cancel_called]"
    using m by (auto simp: main_after_signal_def database_Close_def Let_def
        split: option.splits)
  have l1: "\<lparr>lr_level = LevelError, lr_msg = ''server shutdown error'',
         lr_args = [(''error'', AStr (err_Error e))]\<rparr> \<in> set (plog p')"
    if "shutdownErr = Some e" for e
    using m that by (auto simp: main_after_signal_def database_Close_def Let_def
        logger_Info_def logger_Error_def split: option.splits)
  have l2: "\<lparr>lr_level = LevelError, lr_msg = ''database close error'',
         lr_args = [(''error'', AStr (err_Error e))]\<rparr> \<in> set (plog p')"
    if "closeErr = Some e" for e
    using m that by (auto simp: main_after_signal_def database_Close_def Let_def
        logger_Info_def logger_Error_def split: option.splits)
  have l3: "last (plog p') = \<lparr>lr_level = LevelInfo, lr_msg = ''server stopped'', lr_args = []\<rparr>"
    using m by (auto simp: main_after_signal_def database_Close_def Let_def
        logger_Info_def logger_Error_def split: option.splits)
  have c1: "Close_called \<notin> set [Shutdown_called (10 * Second)]" by simp
  have c2: "count_list [Close_called, Close_returned closeErr, cancel_called] Close_called = 1"
    by simp
  show ?thesis
    using m ev c1 c2 l3 error_always_written [OF l1] error_always_written [OF l2]
    by (intro exI [of _ p'] exI [of _ "[Shutdown_called (10 * Second)]"]
        exI [of _ "[Close_called, Close_returned closeErr, cancel_called]"]) simp
qed

theorem shutdown_sequence_witness:
  "fst (main_after_signal ''terminated'' (Some (Err ''context deadline exceeded''))
          (Some (Err ''close failed'')) \<lparr>plog = [], events = []\<rparr>) = Done \<and>
   \<lparr>lr_level = LevelError, lr_msg = ''server shutdown error'',
     lr_args = [(''error'', AStr ''context deadline exceeded'')]\<rparr>
     \<in> set (plog (snd (main_after_signal ''terminated'' (Some (Err ''context deadline exceeded''))
          (Some (Err ''close failed'')) \<lparr>plog = [], events = []\<rparr>))) \<and>
   \<lparr>lr_level = LevelError, lr_msg = ''database close error'',
     lr_args = [(''error'', AStr ''close failed'')]\<rparr>
     \<in> set (plog (snd (main_after_signal ''terminated'' (Some (Err ''context deadline exceeded''))
          (Some (Err ''close failed'')) \<lparr>plog = [], events = []\<rparr>)))"
proof -
  from shutdown_sequence [of "''terminated''" "Some (Err ''context deadline exceeded'')"
      "Some (Err ''close failed'')" "\<lparr>plog = [], events = []\<rparr>" "\<lambda>s. s" "''error''"]
  obtain p' where
    m: "main_after_signal ''terminated'' (Some (Err ''context deadline exceeded''))
          (Some (Err ''close failed'')) \<lparr>plog = [], events = []\<rparr> = (Done, p')" and
    a: "\<lparr>lr_level = LevelError, lr_msg = ''server shutdown error'',
         lr_args = [(''error'', AStr (err_Error (Err ''context deadline exceeded'')))]\<rparr>
          \<in> set (written (Init_logLevel (\<lambda>s. s) ''error'') (plog p'))" and
    b: "\<lparr>lr_level = LevelError, lr_msg = ''database close error'',
         lr_args = [(''error'', AStr (err_Error (Err ''close failed'')))]\<rparr>
          \<in> set (written (Init_logLevel (\<lambda>s. s) ''error'') (plog p'))"
    by blast
  show ?thesis using a b unfolding m by (simp add: written_def)
qed

end
